theory Spec2Isabelle
  imports Complex_Main
begin

section \<open>Shared HTTP and tracing vocabulary\<close>

text \<open>
  Both services are Go programs built on \<^verbatim>\<open>net/http\<close>, \<^verbatim>\<open>encoding/json\<close> and the
  OpenTelemetry SDK. A Go \<^verbatim>\<open>string\<close> is a sequence of bytes and \<^verbatim>\<open>len\<close> counts bytes;
  an Isabelle \<^typ>\<open>string\<close> is a list of 8-bit characters, so \<^term>\<open>length\<close> is \<^verbatim>\<open>len\<close>.
  \<^verbatim>\<open>http.Header\<close> and \<^verbatim>\<open>url.Values\<close> are both \<^verbatim>\<open>map[string][]string\<close>.
  A body that is read from the network is either its bytes or the error of the read.
\<close>

type_synonym bytes = string
type_synonym header = "string \<rightharpoonup> string list"
type_synonym body_stream = "string + bytes"

text \<open>\<^verbatim>\<open>url.Values.Get\<close>: the first value of the key, the empty string when there is none.\<close>

definition Values_Get :: "header \<Rightarrow> string \<Rightarrow> string" where
  "Values_Get v key = (case v key of None \<Rightarrow> [] | Some [] \<Rightarrow> [] | Some (x # _) \<Rightarrow> x)"

abbreviation StatusOK :: int where "StatusOK \<equiv> 200"
abbreviation StatusSwitchingProtocols :: int where "StatusSwitchingProtocols \<equiv> 101"
abbreviation StatusNoContent :: int where "StatusNoContent \<equiv> 204"
abbreviation StatusNotModified :: int where "StatusNotModified \<equiv> 304"
abbreviation StatusNotFound :: int where "StatusNotFound \<equiv> 404"
abbreviation StatusUnprocessableEntity :: int where "StatusUnprocessableEntity \<equiv> 422"
abbreviation StatusInternalServerError :: int where "StatusInternalServerError \<equiv> 500"
abbreviation MethodGet :: string where "MethodGet \<equiv> ''GET''"

subsection \<open>The inbound request and the outbound client\<close>

text \<open>
  What a handler reads of its \<^verbatim>\<open>*http.Request\<close>: the headers, \<^verbatim>\<open>r.Context()\<close>, the
  parsed query \<^verbatim>\<open>r.URL.Query()\<close> and the body. The context type \<open>'ctx\<close> is the
  tracing library's and stays abstract.
\<close>

record 'ctx inbound =
  in_Header :: header
  in_Context :: "'ctx"
  in_Query :: header
  in_Body :: body_stream

text \<open>An outbound \<^verbatim>\<open>*http.Request\<close> and the \<^verbatim>\<open>*http.Response\<close> the client returns.\<close>

record 'ctx request =
  rq_method :: string
  rq_url :: string
  rq_header :: header
  rq_ctx :: "'ctx"

record client_response =
  StatusCode :: int
  Body :: body_stream

text \<open>
  The observable effects of a handler, in the order they happen: a span is started
  (\<^verbatim>\<open>tracer.Start\<close>) or ended (\<^verbatim>\<open>span.End\<close>), named by the span name of the source;
  a request is sent by \<^verbatim>\<open>Client.Do\<close>; a response body is closed.
\<close>

datatype 'ctx event =
    SpanStart string
  | SpanEnd string
  | ClientDo "'ctx request"
  | BodyClose

text \<open>
  The libraries and the network, as the handlers use them. \<open>NewRequest_error\<close> is the
  error of \<^verbatim>\<open>http.NewRequestWithContext\<close> for a method and a URL, if it has one (the URL
  does not parse); \<open>client_Do\<close> is \<^verbatim>\<open>Client.Do\<close>: a transport error or a response.
  Errors are their \<^verbatim>\<open>Error()\<close> text.
\<close>

record 'ctx lib =
  propagator_Extract :: "'ctx \<Rightarrow> header \<Rightarrow> 'ctx"
  tracer_Start :: "string \<Rightarrow> 'ctx \<Rightarrow> string \<Rightarrow> 'ctx"
  propagator_Inject :: "'ctx \<Rightarrow> header \<Rightarrow> header"
  NewRequest_error :: "string \<Rightarrow> string \<Rightarrow> string option"
  client_Do :: "'ctx request \<Rightarrow> string + client_response"

definition NewRequestWithContext ::
  "('ctx, 'more) lib_scheme \<Rightarrow> 'ctx \<Rightarrow> string \<Rightarrow> string \<Rightarrow> string + 'ctx request" where
  "NewRequestWithContext E ctx method url =
     (case NewRequest_error E method url of
        Some err \<Rightarrow> Inl err
      | None \<Rightarrow> Inr \<lparr>rq_method = method, rq_url = url, rq_header = Map.empty, rq_ctx = ctx\<rparr>)"

subsection \<open>The response writer\<close>

text \<open>
  The server's \<^verbatim>\<open>http.ResponseWriter\<close>. \<open>handlerHeader\<close> is the map \<^verbatim>\<open>w.Header()\<close>
  returns; the first \<^verbatim>\<open>WriteHeader\<close> fixes the status and takes a copy of the headers
  (\<open>sentHeader\<close>), and a later call is superfluous and ignored. A code outside 100..999
  panics. A 1xx code other than 101 is sent as an informational response and leaves
  the final header unwritten. \<^verbatim>\<open>Write\<close> first writes the header with 200 when none was
  written, and drops the data when the status allows no body. \<open>written\<close> is the body as
  the handler wrote it (for a HEAD request the server keeps it off the wire).
\<close>

record response_writer =
  handlerHeader :: header
  wroteHeader :: bool
  status :: int
  sentHeader :: header
  informational :: "int list"
  written :: bytes

definition newResponseWriter :: response_writer where
  "newResponseWriter =
     \<lparr>handlerHeader = Map.empty, wroteHeader = False, status = 0, sentHeader = Map.empty,
      informational = [], written = []\<rparr>"

datatype panic = InvalidWriteHeaderCode int

datatype outcome = Returned | Panicked panic

definition Header_Set :: "response_writer \<Rightarrow> string \<Rightarrow> string \<Rightarrow> response_writer" where
  "Header_Set w key v = w\<lparr>handlerHeader := (handlerHeader w)(key \<mapsto> [v])\<rparr>"

definition WriteHeader :: "response_writer \<Rightarrow> int \<Rightarrow> panic + response_writer" where
  "WriteHeader w code =
     (if wroteHeader w then Inr w
      else if code < 100 \<or> code > 999 then Inl (InvalidWriteHeaderCode code)
      else if 100 \<le> code \<and> code \<le> 199 \<and> code \<noteq> StatusSwitchingProtocols
        then Inr (w\<lparr>informational := informational w @ [code]\<rparr>)
      else Inr (w\<lparr>wroteHeader := True, status := code, sentHeader := handlerHeader w\<rparr>))"

definition bodyAllowedForStatus :: "int \<Rightarrow> bool" where
  "bodyAllowedForStatus s =
     (if 100 \<le> s \<and> s \<le> 199 then False
      else if s = StatusNoContent then False
      else if s = StatusNotModified then False
      else True)"

definition Write :: "response_writer \<Rightarrow> bytes \<Rightarrow> response_writer" where
  "Write w data =
     (let w1 = (if wroteHeader w then w
                else w\<lparr>wroteHeader := True, status := StatusOK, sentHeader := handlerHeader w\<rparr>)
      in if data = [] then w1
         else if \<not> bodyAllowedForStatus (status w1) then w1
         else w1\<lparr>written := written w1 @ data\<rparr>)"

text \<open>
  \<^verbatim>\<open>http.Error(w, error, code)\<close>: sets the two headers, writes the header with the code
  and prints the message followed by a newline (\<^verbatim>\<open>fmt.Fprintln\<close>).
\<close>

definition http_Error :: "response_writer \<Rightarrow> string \<Rightarrow> int \<Rightarrow> outcome \<times> response_writer" where
  "http_Error w error code =
     (let w1 = Header_Set w ''Content-Type'' ''text/plain; charset=utf-8'';
          w2 = Header_Set w1 ''X-Content-Type-Options'' ''nosniff''
      in case WriteHeader w2 code of
           Inl p \<Rightarrow> (Panicked p, w2)
         | Inr w3 \<Rightarrow> (Returned, Write w3 (error @ [CHR 0x0A])))"

text \<open>
  \<^verbatim>\<open>json.NewEncoder(w).Encode(v)\<close>: the value is marshalled first; on an error nothing
  is written (both handlers ignore the error), otherwise the bytes and a newline are.
\<close>

definition Encode :: "('v \<Rightarrow> string + bytes) \<Rightarrow> response_writer \<Rightarrow> 'v \<Rightarrow> response_writer" where
  "Encode marshal w v =
     (case marshal v of Inl err \<Rightarrow> w | Inr b \<Rightarrow> Write w (b @ [CHR 0x0A]))"

text \<open>What a handler has done when it is left: how it was left, the writer, the effects.\<close>

record 'ctx handled =
  outcome :: outcome
  writer :: response_writer
  events :: "'ctx event list"

section \<open>Service B: the backend\<close>

text \<open>
  The decoded JSON of a provider, as \<^verbatim>\<open>json.Unmarshal\<close> fills a
  \<^verbatim>\<open>map[string]interface{}\<close>: a dynamically typed value. A type assertion
  \<^verbatim>\<open>v.(T)\<close> succeeds exactly on the constructor of \<open>T\<close>. The type \<open>'f\<close> is \<^verbatim>\<open>float64\<close>.
\<close>

datatype 'f go_value =
    VNil
  | VBool bool
  | VFloat64 'f
  | VInt int
  | VString string
  | VSlice "'f go_value list"
  | VMap "string \<rightharpoonup> 'f go_value"

record 'f WeatherResponse =
  Localidade :: string
  TempC :: 'f
  TempF :: 'f
  TempK :: 'f

text \<open>
  The backend's environment: the libraries above, \<^verbatim>\<open>json.Unmarshal\<close> into a map,
  \<^verbatim>\<open>os.Getenv\<close>, \<^verbatim>\<open>url.QueryEscape\<close>, \<^verbatim>\<open>json.Marshal\<close> of the response, and the
  \<^verbatim>\<open>float64\<close> operations the handler uses: the product, sum and quotient, the
  conversion of a constant and of an \<^verbatim>\<open>int\<close>, \<^verbatim>\<open>math.Round\<close> and \<^verbatim>\<open>math.Pow\<close>.
\<close>

record ('ctx, 'f) env_b = "'ctx lib" +
  json_Unmarshal :: "bytes \<Rightarrow> string + (string \<rightharpoonup> 'f go_value)"
  os_Getenv :: "string \<Rightarrow> string"
  url_QueryEscape :: "string \<Rightarrow> string"
  json_Marshal :: "'f WeatherResponse \<Rightarrow> string + bytes"
  f_mul :: "'f \<Rightarrow> 'f \<Rightarrow> 'f"
  f_add :: "'f \<Rightarrow> 'f \<Rightarrow> 'f"
  f_div :: "'f \<Rightarrow> 'f \<Rightarrow> 'f"
  f_const :: "rat \<Rightarrow> 'f"
  f_of_int :: "int \<Rightarrow> 'f"
  math_Round :: "'f \<Rightarrow> 'f"
  math_Pow :: "'f \<Rightarrow> 'f \<Rightarrow> 'f"

subsection \<open>getLocation\<close>

text \<open>The part of \<^verbatim>\<open>getLocation\<close> after the response has arrived (lines 139-159).\<close>

definition getLocation_decode :: "('ctx, 'f) env_b \<Rightarrow> client_response \<Rightarrow> string + string" where
  "getLocation_decode E resp =
     (if StatusCode resp \<noteq> StatusOK then Inl ''invalid response from ViaCEP''
      else case Body resp of
        Inl err \<Rightarrow> Inl err
      | Inr body \<Rightarrow>
         (case json_Unmarshal E body of
            Inl err \<Rightarrow> Inl err
          | Inr result \<Rightarrow>
             (case result ''localidade'' of
                Some (VString localidade) \<Rightarrow> Inr localidade
              | _ \<Rightarrow> Inl ''localidade not found in response'')))"

text \<open>The part after \<^verbatim>\<open>defer span.End()\<close>; the deferred \<^verbatim>\<open>resp.Body.Close()\<close> runs last.\<close>

definition getLocation_body ::
  "('ctx, 'f) env_b \<Rightarrow> 'ctx \<Rightarrow> string \<Rightarrow> (string + string) \<times> 'ctx event list" where
  "getLocation_body E ctx cep =
     (case NewRequestWithContext E ctx MethodGet (''http://viacep.com.br/ws/'' @ cep @ ''/json/'') of
        Inl err \<Rightarrow> (Inl err, [])
      | Inr req0 \<Rightarrow>
         (let req = req0\<lparr>rq_header := propagator_Inject E ctx (rq_header req0)\<rparr>
          in case client_Do E req of
               Inl err \<Rightarrow> (Inl err, [ClientDo req])
             | Inr resp \<Rightarrow> (getLocation_decode E resp, [ClientDo req, BodyClose])))"

definition getLocation ::
  "('ctx, 'f) env_b \<Rightarrow> 'ctx \<Rightarrow> string \<Rightarrow> string \<Rightarrow> (string + string) \<times> 'ctx event list" where
  "getLocation E ctx0 tracer cep =
     (let ctx = tracer_Start E tracer ctx0 ''getLocation from viacep'';
          (res, evs) = getLocation_body E ctx cep
      in (res, [SpanStart ''getLocation from viacep''] @ evs @ [SpanEnd ''getLocation from viacep'']))"

subsection \<open>getTemperature\<close>

text \<open>The part of \<^verbatim>\<open>getTemperature\<close> after the response has arrived (lines 182-211).\<close>

definition getTemperature_decode :: "('ctx, 'f) env_b \<Rightarrow> client_response \<Rightarrow> string + 'f" where
  "getTemperature_decode E resp =
     (if StatusCode resp \<noteq> StatusOK then Inl ''invalid response from WeatherAPI''
      else case Body resp of
        Inl err \<Rightarrow> Inl err
      | Inr body \<Rightarrow>
         (case json_Unmarshal E body of
            Inl err \<Rightarrow> Inl err
          | Inr result \<Rightarrow>
             (case result ''current'' of
                Some (VMap current) \<Rightarrow>
                  (case current ''temp_c'' of
                     Some (VFloat64 tempC) \<Rightarrow> Inr tempC
                   | Some (VInt tempCInt) \<Rightarrow> Inr (f_of_int E tempCInt)
                   | _ \<Rightarrow> Inl ''temperature data not found in response'')
              | _ \<Rightarrow> Inl ''current weather data not found in response'')))"

definition weatherapi_url :: "('ctx, 'f) env_b \<Rightarrow> string \<Rightarrow> string" where
  "weatherapi_url E location =
     ''http://api.weatherapi.com/v1/current.json?key='' @ os_Getenv E ''WEATHER_API_KEY''
       @ ''&q='' @ url_QueryEscape E location"

definition getTemperature_body ::
  "('ctx, 'f) env_b \<Rightarrow> 'ctx \<Rightarrow> string \<Rightarrow> (string + 'f) \<times> 'ctx event list" where
  "getTemperature_body E ctx location =
     (case NewRequestWithContext E ctx MethodGet (weatherapi_url E location) of
        Inl err \<Rightarrow> (Inl err, [])
      | Inr req0 \<Rightarrow>
         (let req = req0\<lparr>rq_header := propagator_Inject E ctx (rq_header req0)\<rparr>
          in case client_Do E req of
               Inl err \<Rightarrow> (Inl err, [ClientDo req])
             | Inr resp \<Rightarrow> (getTemperature_decode E resp, [ClientDo req, BodyClose])))"

definition getTemperature ::
  "('ctx, 'f) env_b \<Rightarrow> 'ctx \<Rightarrow> string \<Rightarrow> string \<Rightarrow> (string + 'f) \<times> 'ctx event list" where
  "getTemperature E ctx0 tracer location =
     (let ctx = tracer_Start E tracer ctx0 ''getTemperature from weatherapi'';
          (res, evs) = getTemperature_body E ctx location
      in (res, [SpanStart ''getTemperature from weatherapi''] @ evs
                 @ [SpanEnd ''getTemperature from weatherapi'']))"

subsection \<open>toFixed and getWeatherHandler\<close>

definition toFixed :: "('ctx, 'f) env_b \<Rightarrow> 'f \<Rightarrow> int \<Rightarrow> 'f" where
  "toFixed E num precision =
     (let precicionBase10 = math_Pow E (f_const E 10) (f_of_int E precision)
      in f_div E (math_Round E (f_mul E num precicionBase10)) precicionBase10)"

text \<open>The handler after \<^verbatim>\<open>defer span.End()\<close> (lines 90-119).\<close>

definition getWeatherHandler_body ::
  "('ctx, 'f) env_b \<Rightarrow> 'ctx \<Rightarrow> 'ctx inbound \<Rightarrow> response_writer
     \<Rightarrow> (outcome \<times> response_writer) \<times> 'ctx event list" where
  "getWeatherHandler_body E ctx r w =
     (let cep = Values_Get (in_Query r) ''cep'' in
      if length cep \<noteq> 8 then
        (http_Error w ''invalid zipcode'' StatusUnprocessableEntity, [])
      else
        case getLocation E ctx ''getWeatherHandler'' cep of
          (Inl err, evs1) \<Rightarrow> (http_Error w ''can not find zipcode'' StatusNotFound, evs1)
        | (Inr location, evs1) \<Rightarrow>
           (case getTemperature E ctx ''getWeatherHandler'' location of
              (Inl err, evs2) \<Rightarrow>
                (http_Error w ''error fetching temperature'' StatusInternalServerError,
                 evs1 @ evs2)
            | (Inr tempC, evs2) \<Rightarrow>
               (let tempF = f_add E (f_mul E tempC (f_const E 1.8)) (f_const E 32);
                    tempK = f_add E tempC (f_const E 273.15);
                    response = \<lparr>Localidade = location, TempC = toFixed E tempC 2,
                                TempF = toFixed E tempF 2, TempK = toFixed E tempK 2\<rparr>;
                    w1 = Header_Set w ''Content-Type'' ''application/json''
                in ((Returned, Encode (json_Marshal E) w1 response), evs1 @ evs2))))"

definition getWeatherHandler_ctx :: "('ctx, 'f) env_b \<Rightarrow> 'ctx inbound \<Rightarrow> 'ctx" where
  "getWeatherHandler_ctx E r =
     tracer_Start E ''getWeatherHandler''
       (propagator_Extract E (in_Context r) (in_Header r)) ''getWeatherHandler''"

definition getWeatherHandler :: "('ctx, 'f) env_b \<Rightarrow> 'ctx inbound \<Rightarrow> 'ctx handled" where
  "getWeatherHandler E r =
     (let ctx = getWeatherHandler_ctx E r;
          ((oc, w), evs) = getWeatherHandler_body E ctx r newResponseWriter
      in \<lparr>outcome = oc, writer = w,
          events = [SpanStart ''getWeatherHandler''] @ evs @ [SpanEnd ''getWeatherHandler'']\<rparr>)"

section \<open>Service A: the edge\<close>

text \<open>
  \<^verbatim>\<open>service_a.go\<close> also declares a \<^verbatim>\<open>getTemperature\<close> of its own and a \<^verbatim>\<open>CepResponse\<close>;
  nothing uses them, and they are left out.
\<close>

definition CEP_LENGTH :: nat where
  "CEP_LENGTH = 8"

definition getTempEndpoint :: string where
  "getTempEndpoint = ''http://service-b:8000/''"

record Cep =
  Cep :: string

type_synonym 'f TemperatureResponse = "'f WeatherResponse"

text \<open>
  The edge's environment: \<^verbatim>\<open>json.NewDecoder(body).Decode\<close> into a \<^verbatim>\<open>Cep\<close> and into a
  \<^verbatim>\<open>TemperatureResponse\<close> (the error, if any, and the value as the decoder left it), and
  \<^verbatim>\<open>json.Marshal\<close> of a \<^verbatim>\<open>TemperatureResponse\<close>.
\<close>

record ('ctx, 'f) env_a = "'ctx lib" +
  json_Decode_Cep :: "body_stream \<Rightarrow> string option \<times> Cep"
  json_Decode_TemperatureResponse :: "body_stream \<Rightarrow> string option \<times> 'f TemperatureResponse"
  json_Marshal_TemperatureResponse :: "'f TemperatureResponse \<Rightarrow> string + bytes"

text \<open>The handler once the backend has answered (lines 123-132).\<close>

definition postCepHandler_relay ::
  "('ctx, 'f) env_a \<Rightarrow> client_response \<Rightarrow> response_writer \<Rightarrow> outcome \<times> response_writer" where
  "postCepHandler_relay E resp w =
     (let (err, response) = json_Decode_TemperatureResponse E (Body resp);
          w1 = Header_Set w ''Content-Type'' ''application/json''
      in case WriteHeader w1 (StatusCode resp) of
           Inl p \<Rightarrow> (Panicked p, w1)
         | Inr w2 \<Rightarrow>
            if StatusCode resp = StatusNotFound then
              http_Error w2 ''can not find zipcode'' StatusNotFound
            else (Returned, Encode (json_Marshal_TemperatureResponse E) w2 response))"

text \<open>
  The handler after \<^verbatim>\<open>defer span.End()\<close> (lines 99-121); the deferred
  \<^verbatim>\<open>resp.Body.Close()\<close> runs when the relay is left, also by a panic.
\<close>

definition postCepHandler_body ::
  "('ctx, 'f) env_a \<Rightarrow> 'ctx \<Rightarrow> 'ctx inbound \<Rightarrow> response_writer
     \<Rightarrow> (outcome \<times> response_writer) \<times> 'ctx event list" where
  "postCepHandler_body E ctx r w =
     (let (err, c) = json_Decode_Cep E (in_Body r) in
      if err \<noteq> None \<or> length (Cep c) \<noteq> CEP_LENGTH then
        (http_Error w ''invalid zipcode'' StatusUnprocessableEntity, [])
      else
        let weatherUrl = getTempEndpoint @ ''?cep='' @ Cep c in
        case NewRequestWithContext E ctx MethodGet weatherUrl of
          Inl err \<Rightarrow>
            (http_Error w (''NewRequestWithContext service b error: '' @ err)
               StatusInternalServerError, [])
        | Inr req0 \<Rightarrow>
           (let req = req0\<lparr>rq_header := propagator_Inject E ctx (rq_header req0)\<rparr>
            in case client_Do E req of
                 Inl err \<Rightarrow>
                   (http_Error w (''DefaultClient.Do service b error: '' @ err)
                      StatusInternalServerError, [ClientDo req])
               | Inr resp \<Rightarrow> (postCepHandler_relay E resp w, [ClientDo req, BodyClose])))"

definition postCepHandler_ctx :: "('ctx, 'f) env_a \<Rightarrow> 'ctx inbound \<Rightarrow> 'ctx" where
  "postCepHandler_ctx E r =
     tracer_Start E ''intput-api-tracer''
       (propagator_Extract E (in_Context r) (in_Header r)) ''request-temp-info-to-service-b''"

definition postCepHandler :: "('ctx, 'f) env_a \<Rightarrow> 'ctx inbound \<Rightarrow> 'ctx handled" where
  "postCepHandler E r =
     (let ctx = postCepHandler_ctx E r;
          ((oc, w), evs) = postCepHandler_body E ctx r newResponseWriter
      in \<lparr>outcome = oc, writer = w,
          events = [SpanStart ''request-temp-info-to-service-b''] @ evs
                     @ [SpanEnd ''request-temp-info-to-service-b'']\<rparr>)"

section \<open>Vocabulary of the properties\<close>

text \<open>The spans a run opened and closed, and the requests it sent, in order.\<close>

fun span_opens :: "'ctx event list \<Rightarrow> string list" where
  "span_opens [] = []"
| "span_opens (SpanStart n # evs) = n # span_opens evs"
| "span_opens (e # evs) = span_opens evs"

fun span_closes :: "'ctx event list \<Rightarrow> string list" where
  "span_closes [] = []"
| "span_closes (SpanEnd n # evs) = n # span_closes evs"
| "span_closes (e # evs) = span_closes evs"

fun requests_sent :: "'ctx event list \<Rightarrow> 'ctx request list" where
  "requests_sent [] = []"
| "requests_sent (ClientDo req # evs) = req # requests_sent evs"
| "requests_sent (e # evs) = requests_sent evs"

text \<open>
  Span integrity of a run, read off its events from left to right with the spans that
  are open: a span is started only when it is not open, ended only when it is open, and
  none is left open at the end. With no span started twice and as many starts as ends,
  every span that was opened is closed exactly once.
\<close>

fun span_check :: "string list \<Rightarrow> 'ctx event list \<Rightarrow> bool" where
  "span_check opn [] = (opn = [])"
| "span_check opn (SpanStart n # evs) = (n \<notin> set opn \<and> span_check (n # opn) evs)"
| "span_check opn (SpanEnd n # evs) = (n \<in> set opn \<and> span_check (removeAll n opn) evs)"
| "span_check opn (e # evs) = span_check opn evs"

definition spans_closed_once :: "'ctx event list \<Rightarrow> bool" where
  "spans_closed_once evs =
     (span_check [] evs \<and> distinct (span_opens evs)
      \<and> length (span_closes evs) = length (span_opens evs))"

text \<open>
  The request the edge forwards for a postal code: a GET of the backend's endpoint with
  the code as the \<open>cep\<close> query parameter, carrying the headers the propagator injects for
  the context of the handler's span.
\<close>

definition forwarded_request :: "('ctx, 'f) env_a \<Rightarrow> 'ctx inbound \<Rightarrow> string \<Rightarrow> 'ctx request" where
  "forwarded_request E r code =
     \<lparr>rq_method = MethodGet, rq_url = getTempEndpoint @ ''?cep='' @ code,
      rq_header = propagator_Inject E (postCepHandler_ctx E r) Map.empty,
      rq_ctx = postCepHandler_ctx E r\<rparr>"

text \<open>The requests of the two resolvers, sent under the context of the resolver's span.\<close>

definition geocode_request :: "('ctx, 'f) env_b \<Rightarrow> 'ctx inbound \<Rightarrow> string \<Rightarrow> 'ctx request" where
  "geocode_request E r cep =
     (let ctx = tracer_Start E ''getWeatherHandler'' (getWeatherHandler_ctx E r)
                  ''getLocation from viacep''
      in \<lparr>rq_method = MethodGet, rq_url = ''http://viacep.com.br/ws/'' @ cep @ ''/json/'',
          rq_header = propagator_Inject E ctx Map.empty, rq_ctx = ctx\<rparr>)"

definition weather_request :: "('ctx, 'f) env_b \<Rightarrow> 'ctx inbound \<Rightarrow> string \<Rightarrow> 'ctx request" where
  "weather_request E r location =
     (let ctx = tracer_Start E ''getWeatherHandler'' (getWeatherHandler_ctx E r)
                  ''getTemperature from weatherapi''
      in \<lparr>rq_method = MethodGet, rq_url = weatherapi_url E location,
          rq_header = propagator_Inject E ctx Map.empty, rq_ctx = ctx\<rparr>)"

text \<open>
  The failures of the geocoding provider: a transport error, a status other than 200,
  a body that cannot be read or decoded, or a decoded object with no string under
  \<open>localidade\<close>.
\<close>

definition has_locality :: "(string \<rightharpoonup> 'f go_value) \<Rightarrow> bool" where
  "has_locality m = (case m ''localidade'' of Some (VString l) \<Rightarrow> True | _ \<Rightarrow> False)"

definition geocode_failure :: "('ctx, 'f) env_b \<Rightarrow> 'ctx request \<Rightarrow> bool" where
  "geocode_failure E req =
     (case client_Do E req of
        Inl err \<Rightarrow> True
      | Inr resp \<Rightarrow>
          if StatusCode resp \<noteq> StatusOK then True
          else (case Body resp of
                  Inl err \<Rightarrow> True
                | Inr b \<Rightarrow> (case json_Unmarshal E b of
                              Inl err \<Rightarrow> True
                            | Inr m \<Rightarrow> \<not> has_locality m)))"

text \<open>
  The number under \<open>current.temp_c\<close> of a decoded weather object, in either of its two
  representations, and the failures of the weather provider.
\<close>

definition temp_c_number :: "(string \<rightharpoonup> 'f go_value) \<Rightarrow> 'f go_value option" where
  "temp_c_number m =
     (case m ''current'' of
        Some (VMap current) \<Rightarrow>
          (case current ''temp_c'' of
             Some (VFloat64 x) \<Rightarrow> Some (VFloat64 x)
           | Some (VInt i) \<Rightarrow> Some (VInt i)
           | _ \<Rightarrow> None)
      | _ \<Rightarrow> None)"

definition weather_failure :: "('ctx, 'f) env_b \<Rightarrow> 'ctx request \<Rightarrow> bool" where
  "weather_failure E req =
     (case client_Do E req of
        Inl err \<Rightarrow> True
      | Inr resp \<Rightarrow>
          if StatusCode resp \<noteq> StatusOK then True
          else (case Body resp of
                  Inl err \<Rightarrow> True
                | Inr b \<Rightarrow> (case json_Unmarshal E b of
                              Inl err \<Rightarrow> True
                            | Inr m \<Rightarrow> temp_c_number m = None)))"

text \<open>
  UTF-8, to tell characters from bytes: the encoding of a code point (the replacement
  character for a surrogate or a value out of range) and of a list of code points.
\<close>

definition utf8_EncodeRune :: "nat \<Rightarrow> string" where
  "utf8_EncodeRune r =
     (if r < 0x80 then [char_of r]
      else if r < 0x800 then [char_of (0xC0 + r div 64), char_of (0x80 + r mod 64)]
      else if (0xD800 \<le> r \<and> r \<le> 0xDFFF) \<or> 0x10FFFF < r then [CHR 0xEF, CHR 0xBF, CHR 0xBD]
      else if r < 0x10000 then
        [char_of (0xE0 + r div 4096), char_of (0x80 + (r div 64) mod 64), char_of (0x80 + r mod 64)]
      else
        [char_of (0xF0 + r div 262144), char_of (0x80 + (r div 4096) mod 64),
         char_of (0x80 + (r div 64) mod 64), char_of (0x80 + r mod 64)])"

definition utf8 :: "nat list \<Rightarrow> string" where
  "utf8 runes = concat (map utf8_EncodeRune runes)"

text \<open>Two inputs made of the two-byte character U+00E3: eight of them, and four.\<close>

definition eight_chars :: "nat list" where
  "eight_chars = [0xE3, 0xE3, 0xE3, 0xE3, 0xE3, 0xE3, 0xE3, 0xE3]"

definition four_chars :: "nat list" where
  "four_chars = [0xE3, 0xE3, 0xE3, 0xE3]"

section \<open>Example environments\<close>

text \<open>
  Concrete libraries and providers, defined on the handful of inputs the examples below
  run: a context is the list of the spans it is under, the propagator carries it in the
  \<open>Traceparent\<close> header, a URL with an ASCII control byte does not parse (as in
  \<^verbatim>\<open>net/url\<close>; the text of the error is abridged), and the numbers are exact rationals.
\<close>

definition quoted :: "string \<Rightarrow> string" where
  "quoted s = CHR 0x22 # s @ [CHR 0x22]"

definition example_Extract :: "string list \<Rightarrow> header \<Rightarrow> string list" where
  "example_Extract ctx h = (case h ''Traceparent'' of Some (t # ts) \<Rightarrow> t # ts | _ \<Rightarrow> ctx)"

definition example_Start :: "string \<Rightarrow> string list \<Rightarrow> string \<Rightarrow> string list" where
  "example_Start tracer ctx name = name # ctx"

definition example_Inject :: "string list \<Rightarrow> header \<Rightarrow> header" where
  "example_Inject ctx h = h(''Traceparent'' \<mapsto> ctx)"

definition stringContainsCTLByte :: "string \<Rightarrow> bool" where
  "stringContainsCTLByte s = list_ex (\<lambda>b. (of_char b :: nat) < 0x20 \<or> (of_char b :: nat) = 0x7f) s"

definition example_NewRequest_error :: "string \<Rightarrow> string \<Rightarrow> string option" where
  "example_NewRequest_error method url =
     (if stringContainsCTLByte url then Some ''net/url: invalid control character in URL''
      else None)"

definition viacep_found :: bytes where
  "viacep_found = ''{'' @ quoted ''localidade'' @ '':'' @ quoted ''Sao Paulo'' @ ''}''"

definition viacep_erro :: bytes where
  "viacep_erro = ''{'' @ quoted ''erro'' @ '':true}''"

definition viacep_manaus :: bytes where
  "viacep_manaus = ''{'' @ quoted ''localidade'' @ '':'' @ quoted ''Manaus'' @ ''}''"

definition weather_float :: bytes where
  "weather_float = ''{'' @ quoted ''current'' @ '':{'' @ quoted ''temp_c'' @ '':28.5}}''"

definition weather_int :: bytes where
  "weather_int = ''{'' @ quoted ''current'' @ '':{'' @ quoted ''temp_c'' @ '':30}}''"

definition example_providers :: "string list request \<Rightarrow> string + client_response" where
  "example_providers req =
     (if rq_url req = ''http://viacep.com.br/ws/01001000/json/''
        then Inr \<lparr>StatusCode = 200, Body = Inr viacep_found\<rparr>
      else if rq_url req = ''http://viacep.com.br/ws/69005010/json/''
        then Inr \<lparr>StatusCode = 200, Body = Inr viacep_manaus\<rparr>
      else if rq_url req = ''http://viacep.com.br/ws/99999999/json/''
        then Inr \<lparr>StatusCode = 200, Body = Inr viacep_erro\<rparr>
      else if rq_url req = ''http://viacep.com.br/ws/abcdefgh/json/''
        then Inr \<lparr>StatusCode = 400, Body = Inr []\<rparr>
      else if rq_url req = ''http://api.weatherapi.com/v1/current.json?key=demo&q=Sao+Paulo''
        then Inr \<lparr>StatusCode = 200, Body = Inr weather_float\<rparr>
      else if rq_url req = ''http://api.weatherapi.com/v1/current.json?key=demo&q=Recife''
        then Inr \<lparr>StatusCode = 200, Body = Inr weather_int\<rparr>
      else if rq_url req = ''http://api.weatherapi.com/v1/current.json?key=demo&q=Manaus''
        then Inr \<lparr>StatusCode = 403, Body = Inr []\<rparr>
      else Inl ''dial tcp: lookup failed'')"

definition example_Unmarshal :: "bytes \<Rightarrow> string + (string \<rightharpoonup> rat go_value)" where
  "example_Unmarshal b =
     (if b = viacep_found then Inr [''localidade'' \<mapsto> VString ''Sao Paulo'']
      else if b = viacep_manaus then Inr [''localidade'' \<mapsto> VString ''Manaus'']
      else if b = viacep_erro then Inr [''erro'' \<mapsto> VBool True]
      else if b = weather_float then Inr [''current'' \<mapsto> VMap [''temp_c'' \<mapsto> VFloat64 28.5]]
      else if b = weather_int then Inr [''current'' \<mapsto> VMap [''temp_c'' \<mapsto> VInt 30]]
      else Inl ''unexpected end of JSON input'')"

definition example_QueryEscape :: "string \<Rightarrow> string" where
  "example_QueryEscape s = map (\<lambda>c. if c = CHR '' '' then CHR ''+'' else c) s"

definition example_Round :: "rat \<Rightarrow> rat" where
  "example_Round x = (if 0 \<le> x then of_int \<lfloor>x + 1 / 2\<rfloor> else of_int \<lceil>x - 1 / 2\<rceil>)"

definition example_Marshal :: "rat WeatherResponse \<Rightarrow> string + bytes" where
  "example_Marshal v =
     (if v = \<lparr>Localidade = ''Sao Paulo'', TempC = 28.5, TempF = 83.3, TempK = 301.65\<rparr>
        then Inr (''{'' @ quoted ''city'' @ '':'' @ quoted ''Sao Paulo'' @ '','' @ quoted ''temp_C''
                  @ '':28.5,'' @ quoted ''temp_F'' @ '':83.3,'' @ quoted ''temp_K'' @ '':301.65}'')
      else if v = \<lparr>Localidade = [], TempC = 0, TempF = 0, TempK = 0\<rparr>
        then Inr (''{'' @ quoted ''city'' @ '':'' @ quoted [] @ '','' @ quoted ''temp_C''
                  @ '':0,'' @ quoted ''temp_F'' @ '':0,'' @ quoted ''temp_K'' @ '':0}'')
      else Inl ''json: unsupported value'')"

definition example_env_b :: "(string list, rat) env_b" where
  "example_env_b =
     \<lparr>propagator_Extract = example_Extract, tracer_Start = example_Start,
      propagator_Inject = example_Inject, NewRequest_error = example_NewRequest_error,
      client_Do = example_providers,
      json_Unmarshal = example_Unmarshal, os_Getenv = (\<lambda>name. ''demo''),
      url_QueryEscape = example_QueryEscape, json_Marshal = example_Marshal,
      f_mul = (*), f_add = (+), f_div = (/), f_const = (\<lambda>q. q), f_of_int = of_int,
      math_Round = example_Round, math_Pow = (\<lambda>x y. x ^ nat \<lfloor>y\<rfloor>)\<rparr>"

definition example_query :: "string \<Rightarrow> string list inbound" where
  "example_query cep =
     \<lparr>in_Header = Map.empty, in_Context = [], in_Query = [''cep'' \<mapsto> [cep]], in_Body = Inr []\<rparr>"

definition example_no_query :: "string list inbound" where
  "example_no_query =
     \<lparr>in_Header = Map.empty, in_Context = [], in_Query = Map.empty, in_Body = Inr []\<rparr>"

text \<open>
  The edge's examples: the decoder on bodies that hold one postal code, each given by the
  text of its JSON string and the string it decodes to (they differ for the code that
  ends in a line feed, written with its two-character escape); any other body is not JSON. The
  backend knows one postal code.
\<close>

definition cep_body :: "string \<Rightarrow> bytes" where
  "cep_body literal = ''{'' @ quoted ''cep'' @ '':'' @ quoted literal @ ''}''"

definition line_feed_literal :: string where
  "line_feed_literal = ''1234567'' @ [CHR 0x5C, CHR ''n'']"

definition line_feed_code :: string where
  "line_feed_code = ''1234567'' @ [CHR 0x0A]"

definition example_codes :: "(string \<times> string) list" where
  "example_codes =
     [(''01001000'', ''01001000''), (''99999999'', ''99999999''), (''123'', ''123''),
      (line_feed_literal, line_feed_code),
      (utf8 eight_chars, utf8 eight_chars), (utf8 four_chars, utf8 four_chars)]"

definition example_Decode_Cep :: "body_stream \<Rightarrow> string option \<times> Cep" where
  "example_Decode_Cep b =
     (case b of
        Inl err \<Rightarrow> (Some err, \<lparr>Cep = []\<rparr>)
      | Inr bs \<Rightarrow>
         (case find (\<lambda>(literal, code). bs = cep_body literal) example_codes of
            Some (literal, code) \<Rightarrow> (None, \<lparr>Cep = code\<rparr>)
          | None \<Rightarrow> (Some ''invalid character'', \<lparr>Cep = []\<rparr>)))"

definition example_backend :: "string list request \<Rightarrow> string + client_response" where
  "example_backend req =
     (if rq_url req = ''http://service-b:8000/?cep=01001000''
        then Inr \<lparr>StatusCode = 200, Body = Inr ''report''\<rparr>
      else if rq_url req = ''http://service-b:8000/?cep=99999999''
        then Inr \<lparr>StatusCode = 404, Body = Inr (''can not find zipcode'' @ [CHR 0x0A])\<rparr>
      else if rq_url req = ''http://service-b:8000/?cep='' @ utf8 four_chars
        then Inr \<lparr>StatusCode = 404, Body = Inr (''can not find zipcode'' @ [CHR 0x0A])\<rparr>
      else Inl ''dial tcp: connection refused'')"

definition example_Decode_TemperatureResponse ::
  "body_stream \<Rightarrow> string option \<times> rat TemperatureResponse" where
  "example_Decode_TemperatureResponse b =
     (if b = Inr ''report''
        then (None, \<lparr>Localidade = ''Sao Paulo'', TempC = 28.5, TempF = 83.3, TempK = 301.65\<rparr>)
      else (Some ''invalid character'', \<lparr>Localidade = [], TempC = 0, TempF = 0, TempK = 0\<rparr>))"

definition example_env_a :: "(string list, rat) env_a" where
  "example_env_a =
     \<lparr>propagator_Extract = example_Extract, tracer_Start = example_Start,
      propagator_Inject = example_Inject, NewRequest_error = example_NewRequest_error,
      client_Do = example_backend,
      json_Decode_Cep = example_Decode_Cep,
      json_Decode_TemperatureResponse = example_Decode_TemperatureResponse,
      json_Marshal_TemperatureResponse = example_Marshal\<rparr>"

definition example_post :: "bytes \<Rightarrow> string list inbound" where
  "example_post b =
     \<lparr>in_Header = Map.empty, in_Context = [], in_Query = Map.empty, in_Body = Inr b\<rparr>"

section \<open>The response writer and the event lists\<close>

lemma http_Error_fresh:
  assumes "\<not> wroteHeader w" and "200 \<le> code" and "code \<le> 999"
    and "code \<noteq> StatusNoContent" and "code \<noteq> StatusNotModified"
  shows "http_Error w msg code =
    (Returned,
     w\<lparr>handlerHeader := (handlerHeader w)(''Content-Type'' \<mapsto> [''text/plain; charset=utf-8''],
                                     ''X-Content-Type-Options'' \<mapsto> [''nosniff'']),
       wroteHeader := True, status := code,
       sentHeader := (handlerHeader w)(''Content-Type'' \<mapsto> [''text/plain; charset=utf-8''],
                                     ''X-Content-Type-Options'' \<mapsto> [''nosniff'']),
       written := written w @ msg @ [CHR 0x0A]\<rparr>)"
  using assms
  by (simp add: http_Error_def Header_Set_def WriteHeader_def Write_def bodyAllowedForStatus_def Let_def)

lemma span_opens_append [simp]: "span_opens (xs @ ys) = span_opens xs @ span_opens ys"
  by (induction xs rule: span_opens.induct) simp_all

lemma span_closes_append [simp]: "span_closes (xs @ ys) = span_closes xs @ span_closes ys"
  by (induction xs rule: span_closes.induct) simp_all

lemma requests_sent_append [simp]: "requests_sent (xs @ ys) = requests_sent xs @ requests_sent ys"
  by (induction xs rule: requests_sent.induct) simp_all

text \<open>Two runs with span integrity, one after the other, over different spans.\<close>

lemma span_check_append:
  "span_check opn xs \<Longrightarrow> span_check [] ys \<Longrightarrow> span_check opn (xs @ ys)"
  by (induction opn xs rule: span_check.induct) simp_all

lemma spans_closed_once_append:
  assumes "spans_closed_once xs" and "spans_closed_once ys"
    and "set (span_opens xs) \<inter> set (span_opens ys) = {}"
  shows "spans_closed_once (xs @ ys)"
  using assms by (simp add: spans_closed_once_def span_check_append)

section \<open>The resolvers, case by case\<close>

text \<open>
  Each resolver, run under the context of the backend handler's span, as a case
  distinction over what the request constructor, the client and the provider do.
\<close>

lemma getLocation_eq:
  "getLocation E (getWeatherHandler_ctx E r) ''getWeatherHandler'' cep =
     (case NewRequest_error E MethodGet (''http://viacep.com.br/ws/'' @ cep @ ''/json/'') of
        Some err \<Rightarrow> (Inl err, [SpanStart ''getLocation from viacep'', SpanEnd ''getLocation from viacep''])
      | None \<Rightarrow>
         (case client_Do E (geocode_request E r cep) of
            Inl err \<Rightarrow> (Inl err, [SpanStart ''getLocation from viacep'',
                                  ClientDo (geocode_request E r cep),
                                  SpanEnd ''getLocation from viacep''])
          | Inr resp \<Rightarrow> (getLocation_decode E resp,
                          [SpanStart ''getLocation from viacep'',
                           ClientDo (geocode_request E r cep), BodyClose,
                           SpanEnd ''getLocation from viacep''])))"
  by (simp add: getLocation_def getLocation_body_def NewRequestWithContext_def geocode_request_def
      Let_def split: option.splits sum.splits)

lemma getTemperature_eq:
  "getTemperature E (getWeatherHandler_ctx E r) ''getWeatherHandler'' location =
     (case NewRequest_error E MethodGet (weatherapi_url E location) of
        Some err \<Rightarrow> (Inl err, [SpanStart ''getTemperature from weatherapi'',
                                SpanEnd ''getTemperature from weatherapi''])
      | None \<Rightarrow>
         (case client_Do E (weather_request E r location) of
            Inl err \<Rightarrow> (Inl err, [SpanStart ''getTemperature from weatherapi'',
                                  ClientDo (weather_request E r location),
                                  SpanEnd ''getTemperature from weatherapi''])
          | Inr resp \<Rightarrow> (getTemperature_decode E resp,
                          [SpanStart ''getTemperature from weatherapi'',
                           ClientDo (weather_request E r location), BodyClose,
                           SpanEnd ''getTemperature from weatherapi''])))"
  by (simp add: getTemperature_def getTemperature_body_def NewRequestWithContext_def
      weather_request_def Let_def split: option.splits sum.splits)

text \<open>
  A resolver fails exactly on the failures of its provider, or when its request
  cannot be built.
\<close>

lemma getLocation_decode_fails:
  "isl (getLocation_decode E resp) \<longleftrightarrow>
     (StatusCode resp \<noteq> StatusOK \<or>
      (case Body resp of Inl err \<Rightarrow> True
       | Inr b \<Rightarrow> (case json_Unmarshal E b of Inl err \<Rightarrow> True | Inr m \<Rightarrow> \<not> has_locality m)))"
  by (simp add: getLocation_decode_def has_locality_def
      split: sum.splits option.splits go_value.splits)

lemma getTemperature_decode_fails:
  "isl (getTemperature_decode E resp) \<longleftrightarrow>
     (StatusCode resp \<noteq> StatusOK \<or>
      (case Body resp of Inl err \<Rightarrow> True
       | Inr b \<Rightarrow> (case json_Unmarshal E b of Inl err \<Rightarrow> True | Inr m \<Rightarrow> temp_c_number m = None)))"
  by (simp add: getTemperature_decode_def temp_c_number_def
      split: sum.splits option.splits go_value.splits)

lemma getLocation_fails_iff:
  "isl (fst (getLocation E (getWeatherHandler_ctx E r) ''getWeatherHandler'' cep)) \<longleftrightarrow>
     (NewRequest_error E MethodGet (''http://viacep.com.br/ws/'' @ cep @ ''/json/'') \<noteq> None
      \<or> geocode_failure E (geocode_request E r cep))"
  by (simp add: getLocation_eq geocode_failure_def getLocation_decode_fails
      split: option.splits sum.splits)

lemma getTemperature_fails_iff:
  "isl (fst (getTemperature E (getWeatherHandler_ctx E r) ''getWeatherHandler'' location)) \<longleftrightarrow>
     (NewRequest_error E MethodGet (weatherapi_url E location) \<noteq> None
      \<or> weather_failure E (weather_request E r location))"
  by (simp add: getTemperature_eq weather_failure_def getTemperature_decode_fails
      split: option.splits sum.splits)

lemma getLocation_spans:
  "span_opens (snd (getLocation E (getWeatherHandler_ctx E r) ''getWeatherHandler'' cep))
     = [''getLocation from viacep'']"
  "span_closes (snd (getLocation E (getWeatherHandler_ctx E r) ''getWeatherHandler'' cep))
     = [''getLocation from viacep'']"
  by (simp_all add: getLocation_eq split: option.splits sum.splits)

lemma getTemperature_spans:
  "span_opens (snd (getTemperature E (getWeatherHandler_ctx E r) ''getWeatherHandler'' location))
     = [''getTemperature from weatherapi'']"
  by (simp add: getTemperature_eq split: option.splits sum.splits)

lemma getLocation_requests:
  "set (requests_sent (snd (getLocation E (getWeatherHandler_ctx E r) ''getWeatherHandler'' cep)))
     \<subseteq> {geocode_request E r cep}"
  by (simp add: getLocation_eq split: option.splits sum.splits)

text \<open>
  The events of a resolver under any context: its span is started first and ended
  last, whatever happens in between.
\<close>

lemma getLocation_events:
  "snd (getLocation E ctx tracer cep) = [SpanStart ''getLocation from viacep'']
       @ snd (getLocation_body E (tracer_Start E tracer ctx ''getLocation from viacep'') cep)
       @ [SpanEnd ''getLocation from viacep'']"
  by (simp add: getLocation_def Let_def split: prod.splits)

lemma getLocation_body_events:
  "\<exists>req. snd (getLocation_body E ctx cep) \<in> {[], [ClientDo req], [ClientDo req, BodyClose]}"
  by (simp add: getLocation_body_def Let_def split: sum.splits)

lemma getTemperature_events:
  "snd (getTemperature E ctx tracer location) = [SpanStart ''getTemperature from weatherapi'']
       @ snd (getTemperature_body E (tracer_Start E tracer ctx ''getTemperature from weatherapi'')
                location)
       @ [SpanEnd ''getTemperature from weatherapi'']"
  by (simp add: getTemperature_def Let_def split: prod.splits)

lemma getTemperature_body_events:
  "\<exists>req. snd (getTemperature_body E ctx location)
            \<in> {[], [ClientDo req], [ClientDo req, BodyClose]}"
  by (simp add: getTemperature_body_def Let_def split: sum.splits)

lemma getLocation_closed_once: "spans_closed_once (snd (getLocation E ctx tracer cep))"
  using getLocation_body_events [of E "tracer_Start E tracer ctx ''getLocation from viacep''" cep]
  by (auto simp add: getLocation_events spans_closed_once_def)

lemma getTemperature_closed_once:
  "spans_closed_once (snd (getTemperature E ctx tracer location))"
  using getTemperature_body_events
          [of E "tracer_Start E tracer ctx ''getTemperature from weatherapi''" location]
  by (auto simp add: getTemperature_events spans_closed_once_def)

section \<open>The backend handler, exit by exit\<close>

text \<open>
  The four ways \<^verbatim>\<open>getWeatherHandler\<close> is left: the postal code is invalid, the
  location is not found, the temperature is not fetched, or the report is written. The
  last lemma shows the report of the success exit: each temperature is \<open>toFixed\<close> to
  two places, the Fahrenheit value from \<open>tempC*1.8 + 32\<close> and the Kelvin value from
  \<open>tempC + 273.15\<close>, in the \<^verbatim>\<open>float64\<close> operations of the environment.
\<close>

lemma getWeatherHandler_invalid:
  assumes "length (Values_Get (in_Query r) ''cep'') \<noteq> 8"
  shows "getWeatherHandler E r =
     \<lparr>outcome = Returned,
      writer = snd (http_Error newResponseWriter ''invalid zipcode'' StatusUnprocessableEntity),
      events = [SpanStart ''getWeatherHandler'', SpanEnd ''getWeatherHandler'']\<rparr>"
  using assms
  by (simp add: getWeatherHandler_def getWeatherHandler_body_def Let_def http_Error_fresh
      newResponseWriter_def)

lemma getWeatherHandler_geocode_error:
  assumes "length (Values_Get (in_Query r) ''cep'') = 8"
    and "isl (fst (getLocation E (getWeatherHandler_ctx E r) ''getWeatherHandler''
           (Values_Get (in_Query r) ''cep'')))"
  shows "getWeatherHandler E r =
     \<lparr>outcome = Returned,
      writer = snd (http_Error newResponseWriter ''can not find zipcode'' StatusNotFound),
      events = [SpanStart ''getWeatherHandler'']
        @ snd (getLocation E (getWeatherHandler_ctx E r) ''getWeatherHandler''
                 (Values_Get (in_Query r) ''cep''))
        @ [SpanEnd ''getWeatherHandler'']\<rparr>"
  using assms
  by (cases "getLocation E (getWeatherHandler_ctx E r) ''getWeatherHandler''
           (Values_Get (in_Query r) ''cep'')")
    (auto simp add: getWeatherHandler_def getWeatherHandler_body_def Let_def http_Error_fresh
      newResponseWriter_def isl_def)

lemma getWeatherHandler_temperature_error:
  assumes "length (Values_Get (in_Query r) ''cep'') = 8"
    and "fst (getLocation E (getWeatherHandler_ctx E r) ''getWeatherHandler''
           (Values_Get (in_Query r) ''cep'')) = Inr location"
    and "isl (fst (getTemperature E (getWeatherHandler_ctx E r) ''getWeatherHandler'' location))"
  shows "getWeatherHandler E r =
     \<lparr>outcome = Returned,
      writer = snd (http_Error newResponseWriter ''error fetching temperature''
                      StatusInternalServerError),
      events = [SpanStart ''getWeatherHandler'']
        @ snd (getLocation E (getWeatherHandler_ctx E r) ''getWeatherHandler''
                 (Values_Get (in_Query r) ''cep''))
        @ snd (getTemperature E (getWeatherHandler_ctx E r) ''getWeatherHandler'' location)
        @ [SpanEnd ''getWeatherHandler'']\<rparr>"
  using assms
  by (cases "getLocation E (getWeatherHandler_ctx E r) ''getWeatherHandler''
           (Values_Get (in_Query r) ''cep'')";
      cases "getTemperature E (getWeatherHandler_ctx E r) ''getWeatherHandler'' location")
    (auto simp add: getWeatherHandler_def getWeatherHandler_body_def Let_def http_Error_fresh
      newResponseWriter_def isl_def)

lemma getWeatherHandler_success:
  assumes "length (Values_Get (in_Query r) ''cep'') = 8"
    and "fst (getLocation E (getWeatherHandler_ctx E r) ''getWeatherHandler''
           (Values_Get (in_Query r) ''cep'')) = Inr location"
    and "fst (getTemperature E (getWeatherHandler_ctx E r) ''getWeatherHandler'' location)
           = Inr tempC"
  shows "getWeatherHandler E r =
     \<lparr>outcome = Returned,
      writer = Encode (json_Marshal E)
         (Header_Set newResponseWriter ''Content-Type'' ''application/json'')
         \<lparr>Localidade = location, TempC = toFixed E tempC 2,
          TempF = toFixed E (f_add E (f_mul E tempC (f_const E 1.8)) (f_const E 32)) 2,
          TempK = toFixed E (f_add E tempC (f_const E 273.15)) 2\<rparr>,
      events = [SpanStart ''getWeatherHandler'']
        @ snd (getLocation E (getWeatherHandler_ctx E r) ''getWeatherHandler''
                 (Values_Get (in_Query r) ''cep''))
        @ snd (getTemperature E (getWeatherHandler_ctx E r) ''getWeatherHandler'' location)
        @ [SpanEnd ''getWeatherHandler'']\<rparr>"
  using assms
  by (cases "getLocation E (getWeatherHandler_ctx E r) ''getWeatherHandler''
           (Values_Get (in_Query r) ''cep'')";
      cases "getTemperature E (getWeatherHandler_ctx E r) ''getWeatherHandler'' location")
    (auto simp add: getWeatherHandler_def getWeatherHandler_body_def Let_def)

lemma getWeatherHandler_closed_once: "spans_closed_once (events (getWeatherHandler E r))"
proof (cases "length (Values_Get (in_Query r) ''cep'') = 8")
  case False
  then show ?thesis
    by (simp add: getWeatherHandler_invalid spans_closed_once_def)
next
  case valid: True
  show ?thesis
  proof (cases "fst (getLocation E (getWeatherHandler_ctx E r) ''getWeatherHandler''
                       (Values_Get (in_Query r) ''cep''))")
    case (Inl err)
    then have "isl (fst (getLocation E (getWeatherHandler_ctx E r) ''getWeatherHandler''
                       (Values_Get (in_Query r) ''cep'')))"
      by simp
    from getWeatherHandler_geocode_error [OF valid this] show ?thesis
      by (simp add: spans_closed_once_def getLocation_eq split: option.splits sum.splits)
  next
    case (Inr location)
    show ?thesis
    proof (cases "fst (getTemperature E (getWeatherHandler_ctx E r) ''getWeatherHandler''
                         location)")
      case (Inl err)
      then have "isl (fst (getTemperature E (getWeatherHandler_ctx E r) ''getWeatherHandler''
                         location))"
        by simp
      from getWeatherHandler_temperature_error [OF valid Inr this] show ?thesis
        by (simp add: spans_closed_once_def getLocation_eq getTemperature_eq
            split: option.splits sum.splits)
    next
      case (Inr tempC)
      from getWeatherHandler_success [OF valid \<open>fst (getLocation E (getWeatherHandler_ctx E r)
          ''getWeatherHandler'' (Values_Get (in_Query r) ''cep'')) = Inr location\<close> Inr]
      show ?thesis
        by (simp add: spans_closed_once_def getLocation_eq getTemperature_eq
            split: option.splits sum.splits)
    qed
  qed
qed

lemma getWeatherHandler_opens:
  "set (span_opens (events (getWeatherHandler E r)))
     \<subseteq> {''getWeatherHandler'', ''getLocation from viacep'', ''getTemperature from weatherapi''}"
proof (cases "length (Values_Get (in_Query r) ''cep'') = 8")
  case False
  then show ?thesis
    by (simp add: getWeatherHandler_invalid)
next
  case valid: True
  let ?loc = "getLocation E (getWeatherHandler_ctx E r) ''getWeatherHandler''
                (Values_Get (in_Query r) ''cep'')"
  show ?thesis
  proof (cases "fst ?loc")
    case (Inl err)
    then have "isl (fst ?loc)" by simp
    from getWeatherHandler_geocode_error [OF valid this] show ?thesis
      by (simp add: getLocation_spans)
  next
    case (Inr location)
    let ?temp = "getTemperature E (getWeatherHandler_ctx E r) ''getWeatherHandler'' location"
    show ?thesis
    proof (cases "fst ?temp")
      case (Inl err)
      then have "isl (fst ?temp)" by simp
      from getWeatherHandler_temperature_error [OF valid Inr this] show ?thesis
        by (simp add: getLocation_spans getTemperature_spans)
    next
      case (Inr tempC)
      from getWeatherHandler_success [OF valid \<open>fst ?loc = Inr location\<close> Inr] show ?thesis
        by (simp add: getLocation_spans getTemperature_spans)
    qed
  qed
qed

lemma getWeatherHandler_valid_status:
  assumes "length (Values_Get (in_Query r) ''cep'') = 8"
  shows "status (writer (getWeatherHandler E r)) \<noteq> StatusUnprocessableEntity"
    and "''getLocation from viacep'' \<in> set (span_opens (events (getWeatherHandler E r)))"
proof -
  let ?loc = "getLocation E (getWeatherHandler_ctx E r) ''getWeatherHandler''
                (Values_Get (in_Query r) ''cep'')"
  have "status (writer (getWeatherHandler E r)) \<noteq> StatusUnprocessableEntity
      \<and> ''getLocation from viacep'' \<in> set (span_opens (events (getWeatherHandler E r)))"
  proof (cases "fst ?loc")
    case (Inl err)
    then have "isl (fst ?loc)" by simp
    from getWeatherHandler_geocode_error [OF assms this] show ?thesis
      by (simp add: http_Error_fresh newResponseWriter_def getLocation_spans)
  next
    case (Inr location)
    show ?thesis
    proof (cases "fst (getTemperature E (getWeatherHandler_ctx E r) ''getWeatherHandler''
                         location)")
      case (Inl err)
      then have "isl (fst (getTemperature E (getWeatherHandler_ctx E r) ''getWeatherHandler''
                         location))"
        by simp
      from getWeatherHandler_temperature_error [OF assms Inr this] show ?thesis
        by (simp add: http_Error_fresh newResponseWriter_def getLocation_spans)
    next
      case (Inr tempC)
      from getWeatherHandler_success [OF assms \<open>fst ?loc = Inr location\<close> Inr]
      show ?thesis
        by (simp add: getLocation_spans Encode_def Write_def Header_Set_def
            newResponseWriter_def bodyAllowedForStatus_def split: sum.splits)
    qed
  qed
  then show "status (writer (getWeatherHandler E r)) \<noteq> StatusUnprocessableEntity"
    and "''getLocation from viacep'' \<in> set (span_opens (events (getWeatherHandler E r)))"
    by simp_all
qed

section \<open>The edge handler, exit by exit\<close>

lemma postCepHandler_invalid:
  assumes "fst (json_Decode_Cep E (in_Body r)) \<noteq> None
           \<or> length (Cep (snd (json_Decode_Cep E (in_Body r)))) \<noteq> 8"
  shows "postCepHandler E r =
     \<lparr>outcome = Returned,
      writer = snd (http_Error newResponseWriter ''invalid zipcode'' StatusUnprocessableEntity),
      events = [SpanStart ''request-temp-info-to-service-b'',
                SpanEnd ''request-temp-info-to-service-b'']\<rparr>"
  using assms
  by (cases "json_Decode_Cep E (in_Body r)")
    (auto simp add: postCepHandler_def postCepHandler_body_def CEP_LENGTH_def Let_def
      http_Error_fresh newResponseWriter_def)

lemma postCepHandler_valid:
  assumes "json_Decode_Cep E (in_Body r) = (None, c)" and "length (Cep c) = 8"
  shows "postCepHandler E r =
     (case NewRequest_error E MethodGet (getTempEndpoint @ ''?cep='' @ Cep c) of
        Some err \<Rightarrow>
          \<lparr>outcome = Returned,
           writer = snd (http_Error newResponseWriter
                      (''NewRequestWithContext service b error: '' @ err)
                      StatusInternalServerError),
           events = [SpanStart ''request-temp-info-to-service-b'',
                     SpanEnd ''request-temp-info-to-service-b'']\<rparr>
      | None \<Rightarrow>
         (case client_Do E (forwarded_request E r (Cep c)) of
            Inl err \<Rightarrow>
              \<lparr>outcome = Returned,
               writer = snd (http_Error newResponseWriter
                          (''DefaultClient.Do service b error: '' @ err)
                          StatusInternalServerError),
               events = [SpanStart ''request-temp-info-to-service-b'',
                         ClientDo (forwarded_request E r (Cep c)),
                         SpanEnd ''request-temp-info-to-service-b'']\<rparr>
          | Inr resp \<Rightarrow>
              \<lparr>outcome = fst (postCepHandler_relay E resp newResponseWriter),
               writer = snd (postCepHandler_relay E resp newResponseWriter),
               events = [SpanStart ''request-temp-info-to-service-b'',
                         ClientDo (forwarded_request E r (Cep c)), BodyClose,
                         SpanEnd ''request-temp-info-to-service-b'']\<rparr>))"
  using assms
  by (simp add: postCepHandler_def postCepHandler_body_def CEP_LENGTH_def Let_def
      NewRequestWithContext_def forwarded_request_def http_Error_fresh newResponseWriter_def
      split: option.splits sum.splits prod.splits)

lemma postCepHandler_relay_404:
  assumes "StatusCode resp = StatusNotFound"
  shows "fst (postCepHandler_relay E resp newResponseWriter) = Returned"
    and "wroteHeader (snd (postCepHandler_relay E resp newResponseWriter))"
    and "status (snd (postCepHandler_relay E resp newResponseWriter)) = StatusNotFound"
    and "written (snd (postCepHandler_relay E resp newResponseWriter))
           = ''can not find zipcode'' @ [CHR 0x0A]"
    and "sentHeader (snd (postCepHandler_relay E resp newResponseWriter)) ''Content-Type''
           = Some [''application/json'']"
  using assms
  by (simp_all add: postCepHandler_relay_def Let_def Header_Set_def WriteHeader_def
      http_Error_def Write_def bodyAllowedForStatus_def newResponseWriter_def
      split: prod.splits)

lemma postCepHandler_events:
  "\<exists>req. events (postCepHandler E r) \<in>
     {[SpanStart ''request-temp-info-to-service-b'', SpanEnd ''request-temp-info-to-service-b''],
      [SpanStart ''request-temp-info-to-service-b'', ClientDo req,
       SpanEnd ''request-temp-info-to-service-b''],
      [SpanStart ''request-temp-info-to-service-b'', ClientDo req, BodyClose,
       SpanEnd ''request-temp-info-to-service-b'']}"
  by (simp add: postCepHandler_def postCepHandler_body_def Let_def
      split: prod.splits sum.splits)

lemma postCepHandler_closed_once: "spans_closed_once (events (postCepHandler E r))"
  using postCepHandler_events [of E r] by (auto simp add: spans_closed_once_def)

lemma postCepHandler_opens:
  "span_opens (events (postCepHandler E r)) = [''request-temp-info-to-service-b'']"
  using postCepHandler_events [of E r] by auto

text \<open>A run of the edge together with a run of the backend, as for one request.\<close>

lemma pipeline_closed_once:
  "spans_closed_once (events (postCepHandler Ea ra) @ events (getWeatherHandler Eb rb))"
proof (rule spans_closed_once_append)
  show "spans_closed_once (events (postCepHandler Ea ra))"
    by (rule postCepHandler_closed_once)
  show "spans_closed_once (events (getWeatherHandler Eb rb))"
    by (rule getWeatherHandler_closed_once)
  show "set (span_opens (events (postCepHandler Ea ra)))
          \<inter> set (span_opens (events (getWeatherHandler Eb rb))) = {}"
    using getWeatherHandler_opens [of Eb rb] by (auto simp add: postCepHandler_opens)
qed

section \<open>The examples, evaluated\<close>

lemma utf8_lengths:
  "length eight_chars = 8" "length (utf8 eight_chars) = 16"
  "length four_chars = 4" "length (utf8 four_chars) = 8"
  by (simp_all add: eight_chars_def four_chars_def utf8_def utf8_EncodeRune_def)

lemmas example_defs =
  example_env_a_def example_env_b_def example_Extract_def example_Start_def example_Inject_def
  example_NewRequest_error_def stringContainsCTLByte_def example_providers_def
  example_Unmarshal_def example_QueryEscape_def example_Round_def example_Marshal_def
  example_query_def example_no_query_def example_Decode_Cep_def example_backend_def
  example_Decode_TemperatureResponse_def example_post_def example_codes_def cep_body_def
  line_feed_literal_def line_feed_code_def
  quoted_def viacep_found_def viacep_erro_def viacep_manaus_def weather_float_def weather_int_def
  utf8_def utf8_EncodeRune_def eight_chars_def four_chars_def

lemmas run_defs =
  geocode_request_def weather_request_def forwarded_request_def getWeatherHandler_ctx_def
  postCepHandler_ctx_def weatherapi_url_def getTempEndpoint_def Values_Get_def Let_def

lemmas resolver_defs =
  getLocation_def getLocation_body_def getLocation_decode_def getTemperature_def
  getTemperature_body_def getTemperature_decode_def NewRequestWithContext_def

lemma example_geocode_absent:
  "geocode_failure example_env_b (geocode_request example_env_b (example_query ''99999999'') ''99999999'')"
  by (simp add: geocode_failure_def geocode_request_def has_locality_def Let_def example_defs)

lemma example_geocode_400:
  "geocode_failure example_env_b (geocode_request example_env_b (example_query ''abcdefgh'') ''abcdefgh'')"
  by (simp add: geocode_failure_def geocode_request_def has_locality_def Let_def example_defs)

lemma example_location_manaus:
  "fst (getLocation example_env_b (getWeatherHandler_ctx example_env_b (example_query ''69005010''))
          ''getWeatherHandler'' ''69005010'') = Inr ''Manaus''"
  by (simp add: resolver_defs run_defs example_defs)

lemma example_weather_403:
  "weather_failure example_env_b
     (weather_request example_env_b (example_query ''69005010'') ''Manaus'')"
  by (simp add: weather_failure_def run_defs example_defs)

lemma example_decode_code:
  "json_Decode_Cep example_env_a (in_Body (example_post (cep_body ''01001000'')))
     = (None, \<lparr>Cep = ''01001000''\<rparr>)"
  "json_Decode_Cep example_env_a (in_Body (example_post (cep_body ''99999999'')))
     = (None, \<lparr>Cep = ''99999999''\<rparr>)"
  "json_Decode_Cep example_env_a (in_Body (example_post (cep_body line_feed_literal)))
     = (None, \<lparr>Cep = line_feed_code\<rparr>)"
  "json_Decode_Cep example_env_a (in_Body (example_post (cep_body (utf8 eight_chars))))
     = (None, \<lparr>Cep = utf8 eight_chars\<rparr>)"
  "json_Decode_Cep example_env_a (in_Body (example_post (cep_body (utf8 four_chars))))
     = (None, \<lparr>Cep = utf8 four_chars\<rparr>)"
  by (simp_all add: example_defs)

lemma example_success_run:
  "span_opens (events (getWeatherHandler example_env_b (example_query ''01001000'')))
     = [''getWeatherHandler'', ''getLocation from viacep'', ''getTemperature from weatherapi'']"
  "span_closes (events (getWeatherHandler example_env_b (example_query ''01001000'')))
     = [''getLocation from viacep'', ''getTemperature from weatherapi'', ''getWeatherHandler'']"
  "status (writer (getWeatherHandler example_env_b (example_query ''01001000''))) = StatusOK"
  by code_simp+

section \<open>The claims\<close>

text \<open>
  C1 is about the values of \<^verbatim>\<open>float64\<close> arithmetic, which this development keeps
  abstract; \<open>getWeatherHandler_success\<close> above shows which operations the handler
  applies.
\<close>

text \<open>
  C2. Span integrity. In every run of either handler and of either resolver, for every
  environment and request and so on every exit path (validation failure, geocode
  failure, temperature failure, success, and the panic of the edge on a status code no
  response may carry), every span that is opened is closed exactly once: no span is
  started twice, each end closes a span that is open, none is left open, and there are
  as many ends as starts. The same holds of a run of the edge and a run of the backend
  taken together, as for one request that crosses both services.
\<close>

theorem span_integrity:
  "spans_closed_once (events (postCepHandler Ea ra))
   \<and> spans_closed_once (events (getWeatherHandler Eb rb))
   \<and> spans_closed_once (snd (getLocation Eb ctx tracer cep))
   \<and> spans_closed_once (snd (getTemperature Eb ctx tracer location))
   \<and> spans_closed_once (events (postCepHandler Ea ra) @ events (getWeatherHandler Eb rb))"
  by (simp add: postCepHandler_closed_once getWeatherHandler_closed_once
      getLocation_closed_once getTemperature_closed_once pipeline_closed_once)

text \<open>
  The success path of the examples: three spans are opened by the backend, the two
  resolvers' spans are closed before the handler's.
\<close>

theorem span_integrity_witness:
  "spans_closed_once (events (postCepHandler example_env_a (example_post (cep_body ''01001000''))))
   \<and> spans_closed_once (events (getWeatherHandler example_env_b (example_query ''01001000'')))
   \<and> spans_closed_once (snd (getLocation example_env_b [] ''getWeatherHandler'' ''01001000''))
   \<and> spans_closed_once (snd (getTemperature example_env_b [] ''getWeatherHandler'' ''Sao Paulo''))
   \<and> spans_closed_once
         (events (postCepHandler example_env_a (example_post (cep_body ''01001000'')))
          @ events (getWeatherHandler example_env_b (example_query ''01001000'')))
   \<and> span_opens (events (getWeatherHandler example_env_b (example_query ''01001000'')))
        = [''getWeatherHandler'', ''getLocation from viacep'', ''getTemperature from weatherapi'']
   \<and> span_closes (events (getWeatherHandler example_env_b (example_query ''01001000'')))
        = [''getLocation from viacep'', ''getTemperature from weatherapi'', ''getWeatherHandler'']"
  using span_integrity [of example_env_a "example_post (cep_body ''01001000'')"
      example_env_b "example_query ''01001000''" "[]" "''getWeatherHandler''" "''01001000''"
      "''Sao Paulo''"]
  by (simp add: example_success_run)

text \<open>
  C3. When the body of an edge request does not decode (the decoder returns an error),
  or the decoded \<open>cep\<close> is not exactly 8 bytes long, the edge handler answers 422 with
  the message \<open>invalid zipcode\<close> (as \<^verbatim>\<open>http.Error\<close> prints it, followed by a newline)
  and sends no request to the backend.
\<close>

theorem edge_invalid_zipcode:
  assumes "fst (json_Decode_Cep E (in_Body r)) \<noteq> None
           \<or> length (Cep (snd (json_Decode_Cep E (in_Body r)))) \<noteq> 8"
  shows "outcome (postCepHandler E r) = Returned
       \<and> wroteHeader (writer (postCepHandler E r))
       \<and> status (writer (postCepHandler E r)) = StatusUnprocessableEntity
       \<and> written (writer (postCepHandler E r)) = ''invalid zipcode'' @ [CHR 0x0A]
       \<and> requests_sent (events (postCepHandler E r)) = []"
  by (simp add: postCepHandler_invalid [OF assms] http_Error_fresh newResponseWriter_def)

text \<open>
  A body that is not JSON, and a body with a code of three characters.
\<close>

theorem edge_invalid_zipcode_witness:
  "fst (json_Decode_Cep example_env_a (in_Body (example_post ''not json'')))
     = Some ''invalid character''
   \<and> length (Cep (snd (json_Decode_Cep example_env_a (in_Body (example_post (cep_body ''123'')))))) = 3
   \<and> status (writer (postCepHandler example_env_a (example_post ''not json'')))
        = StatusUnprocessableEntity
   \<and> written (writer (postCepHandler example_env_a (example_post ''not json'')))
        = ''invalid zipcode'' @ [CHR 0x0A]
   \<and> requests_sent (events (postCepHandler example_env_a (example_post ''not json''))) = []
   \<and> status (writer (postCepHandler example_env_a (example_post (cep_body ''123''))))
        = StatusUnprocessableEntity
   \<and> requests_sent (events (postCepHandler example_env_a (example_post (cep_body ''123'')))) = []"
proof -
  have bad: "fst (json_Decode_Cep example_env_a (in_Body (example_post ''not json'')))
               = Some ''invalid character''"
    and short: "length (Cep (snd (json_Decode_Cep example_env_a
                  (in_Body (example_post (cep_body ''123'')))))) = 3"
    by (simp_all add: example_defs)
  have h1: "fst (json_Decode_Cep example_env_a (in_Body (example_post ''not json''))) \<noteq> None
       \<or> length (Cep (snd (json_Decode_Cep example_env_a (in_Body (example_post ''not json''))))) \<noteq> 8"
    using bad by simp
  have h2: "fst (json_Decode_Cep example_env_a (in_Body (example_post (cep_body ''123'')))) \<noteq> None
       \<or> length (Cep (snd (json_Decode_Cep example_env_a
                  (in_Body (example_post (cep_body ''123'')))))) \<noteq> 8"
    using short by simp
  from edge_invalid_zipcode [OF h1] edge_invalid_zipcode [OF h2] bad short
  show ?thesis by simp
qed

text \<open>
  C4. When the \<open>cep\<close> query parameter of a backend request is not exactly 8 bytes
  long (a missing parameter reads as the empty string), the backend handler answers 422
  with the message \<open>invalid zipcode\<close>, and neither resolver is called: the only events
  of the run are the start and the end of the handler's own span.
\<close>

theorem backend_invalid_zipcode:
  assumes "length (Values_Get (in_Query r) ''cep'') \<noteq> 8"
  shows "outcome (getWeatherHandler E r) = Returned
       \<and> wroteHeader (writer (getWeatherHandler E r))
       \<and> status (writer (getWeatherHandler E r)) = StatusUnprocessableEntity
       \<and> written (writer (getWeatherHandler E r)) = ''invalid zipcode'' @ [CHR 0x0A]
       \<and> events (getWeatherHandler E r)
           = [SpanStart ''getWeatherHandler'', SpanEnd ''getWeatherHandler'']"
  using assms
  by (simp add: getWeatherHandler_def getWeatherHandler_body_def Let_def http_Error_fresh newResponseWriter_def)

text \<open>
  A request with no \<open>cep\<close> parameter, and one with a code of three characters.
\<close>

theorem backend_invalid_zipcode_witness:
  "length (Values_Get (in_Query example_no_query) ''cep'') = 0
   \<and> length (Values_Get (in_Query (example_query ''123'')) ''cep'') = 3
   \<and> status (writer (getWeatherHandler example_env_b example_no_query)) = StatusUnprocessableEntity
   \<and> written (writer (getWeatherHandler example_env_b example_no_query))
         = ''invalid zipcode'' @ [CHR 0x0A]
   \<and> events (getWeatherHandler example_env_b (example_query ''123''))
         = [SpanStart ''getWeatherHandler'', SpanEnd ''getWeatherHandler'']"
proof -
  have missing: "length (Values_Get (in_Query example_no_query) ''cep'') \<noteq> 8"
    and short: "length (Values_Get (in_Query (example_query ''123'')) ''cep'') \<noteq> 8"
    by (simp_all add: example_no_query_def example_query_def Values_Get_def)
  from backend_invalid_zipcode [OF missing, of example_env_b]
    backend_invalid_zipcode [OF short, of example_env_b]
  show ?thesis
    by (simp add: example_no_query_def example_query_def Values_Get_def)
qed

text \<open>
  C5. For a \<open>cep\<close> of 8 bytes, when the geocode resolver fails (its request cannot
  be built, the transport fails, the provider answers with a status other than 200, the
  body cannot be read or decoded, or the decoded object has no string under
  \<open>localidade\<close>), the backend answers 404 with the message \<open>can not find zipcode\<close>,
  and the temperature resolver is not invoked: its span is never started and the only
  request that may have been sent is the geocoding one.
\<close>

theorem backend_geocode_failure:
  assumes "cep = Values_Get (in_Query r) ''cep''" and "length cep = 8"
    and "NewRequest_error E MethodGet (''http://viacep.com.br/ws/'' @ cep @ ''/json/'') \<noteq> None
         \<or> geocode_failure E (geocode_request E r cep)"
  shows "isl (fst (getLocation E (getWeatherHandler_ctx E r) ''getWeatherHandler'' cep))
       \<and> outcome (getWeatherHandler E r) = Returned
       \<and> wroteHeader (writer (getWeatherHandler E r))
       \<and> status (writer (getWeatherHandler E r)) = StatusNotFound
       \<and> written (writer (getWeatherHandler E r)) = ''can not find zipcode'' @ [CHR 0x0A]
       \<and> ''getTemperature from weatherapi'' \<notin> set (span_opens (events (getWeatherHandler E r)))
       \<and> set (requests_sent (events (getWeatherHandler E r))) \<subseteq> {geocode_request E r cep}"
proof -
  have fails: "isl (fst (getLocation E (getWeatherHandler_ctx E r) ''getWeatherHandler'' cep))"
    using assms(3) by (simp only: getLocation_fails_iff)
  have run: "getWeatherHandler E r =
     \<lparr>outcome = Returned,
      writer = snd (http_Error newResponseWriter ''can not find zipcode'' StatusNotFound),
      events = [SpanStart ''getWeatherHandler'']
        @ snd (getLocation E (getWeatherHandler_ctx E r) ''getWeatherHandler'' cep)
        @ [SpanEnd ''getWeatherHandler'']\<rparr>"
    using getWeatherHandler_geocode_error [of r E] assms(1,2) fails by simp
  show ?thesis
    using fails getLocation_requests [of E r cep]
    by (simp add: run getLocation_spans http_Error_fresh newResponseWriter_def)
qed

text \<open>
  A provider that answers 200 without a locality, and one that answers 400.
\<close>

theorem backend_geocode_failure_witness:
  "length (Values_Get (in_Query (example_query ''99999999'')) ''cep'') = 8
   \<and> geocode_failure example_env_b
         (geocode_request example_env_b (example_query ''99999999'') ''99999999'')
   \<and> geocode_failure example_env_b
         (geocode_request example_env_b (example_query ''abcdefgh'') ''abcdefgh'')
   \<and> status (writer (getWeatherHandler example_env_b (example_query ''99999999''))) = StatusNotFound
   \<and> written (writer (getWeatherHandler example_env_b (example_query ''99999999'')))
         = ''can not find zipcode'' @ [CHR 0x0A]
   \<and> status (writer (getWeatherHandler example_env_b (example_query ''abcdefgh''))) = StatusNotFound
   \<and> ''getTemperature from weatherapi''
         \<notin> set (span_opens (events (getWeatherHandler example_env_b (example_query ''abcdefgh''))))"
proof -
  have q: "''99999999'' = Values_Get (in_Query (example_query ''99999999'')) ''cep''"
          "''abcdefgh'' = Values_Get (in_Query (example_query ''abcdefgh'')) ''cep''"
    by (simp_all add: example_query_def Values_Get_def)
  have l: "length ''99999999'' = 8" "length ''abcdefgh'' = 8"
    by simp_all
  from backend_geocode_failure [OF q(1) l(1) disjI2, OF example_geocode_absent]
    backend_geocode_failure [OF q(2) l(2) disjI2, OF example_geocode_400]
    example_geocode_absent example_geocode_400
  show ?thesis
    by (simp add: example_query_def Values_Get_def)
qed

text \<open>
  C6. For a \<open>cep\<close> of 8 bytes whose locality was resolved, when the temperature
  resolver fails (its request cannot be built, the transport fails, the provider
  answers with a status other than 200, the body cannot be read or decoded, or the
  decoded object has no number under \<open>current.temp_c\<close>), the backend answers 500 with
  the message \<open>error fetching temperature\<close>.
\<close>

theorem backend_temperature_failure:
  assumes "cep = Values_Get (in_Query r) ''cep''" and "length cep = 8"
    and "fst (getLocation E (getWeatherHandler_ctx E r) ''getWeatherHandler'' cep) = Inr location"
    and "NewRequest_error E MethodGet (weatherapi_url E location) \<noteq> None
         \<or> weather_failure E (weather_request E r location)"
  shows "isl (fst (getTemperature E (getWeatherHandler_ctx E r) ''getWeatherHandler'' location))
       \<and> outcome (getWeatherHandler E r) = Returned
       \<and> wroteHeader (writer (getWeatherHandler E r))
       \<and> status (writer (getWeatherHandler E r)) = StatusInternalServerError
       \<and> written (writer (getWeatherHandler E r)) = ''error fetching temperature'' @ [CHR 0x0A]"
proof -
  have fails:
    "isl (fst (getTemperature E (getWeatherHandler_ctx E r) ''getWeatherHandler'' location))"
    using assms(4) by (simp only: getTemperature_fails_iff)
  have run: "getWeatherHandler E r =
     \<lparr>outcome = Returned,
      writer = snd (http_Error newResponseWriter ''error fetching temperature''
                      StatusInternalServerError),
      events = [SpanStart ''getWeatherHandler'']
        @ snd (getLocation E (getWeatherHandler_ctx E r) ''getWeatherHandler'' cep)
        @ snd (getTemperature E (getWeatherHandler_ctx E r) ''getWeatherHandler'' location)
        @ [SpanEnd ''getWeatherHandler'']\<rparr>"
    using getWeatherHandler_temperature_error [of r E location] assms(1,2,3) fails by simp
  show ?thesis
    using fails by (simp add: run http_Error_fresh newResponseWriter_def)
qed

text \<open>
  A locality that is resolved and a weather provider that answers 403.
\<close>

theorem backend_temperature_failure_witness:
  "length (Values_Get (in_Query (example_query ''69005010'')) ''cep'') = 8
   \<and> fst (getLocation example_env_b
             (getWeatherHandler_ctx example_env_b (example_query ''69005010''))
             ''getWeatherHandler'' ''69005010'') = Inr ''Manaus''
   \<and> weather_failure example_env_b
         (weather_request example_env_b (example_query ''69005010'') ''Manaus'')
   \<and> status (writer (getWeatherHandler example_env_b (example_query ''69005010'')))
         = StatusInternalServerError
   \<and> written (writer (getWeatherHandler example_env_b (example_query ''69005010'')))
         = ''error fetching temperature'' @ [CHR 0x0A]"
proof -
  have q: "''69005010'' = Values_Get (in_Query (example_query ''69005010'')) ''cep''"
    by (simp add: example_query_def Values_Get_def)
  have l: "length ''69005010'' = 8"
    by simp
  from backend_temperature_failure [OF q l example_location_manaus disjI2,
      OF example_weather_403]
    example_location_manaus example_weather_403
  show ?thesis
    by (simp add: example_query_def Values_Get_def)
qed

text \<open>
  C7. When the backend answers a forwarded request with status 404, the edge handler
  answers 404 with the message \<open>can not find zipcode\<close>, whatever the body of the
  backend's response was. (The header was already written with the backend's status,
  which is 404 as well, so the second \<^verbatim>\<open>WriteHeader\<close> inside \<^verbatim>\<open>http.Error\<close> changes
  nothing.)
\<close>

theorem edge_relays_not_found:
  assumes "json_Decode_Cep E (in_Body r) = (None, c)" and "length (Cep c) = 8"
    and "NewRequest_error E MethodGet (getTempEndpoint @ ''?cep='' @ Cep c) = None"
    and "client_Do E (forwarded_request E r (Cep c)) = Inr resp"
    and "StatusCode resp = StatusNotFound"
  shows "outcome (postCepHandler E r) = Returned
       \<and> wroteHeader (writer (postCepHandler E r))
       \<and> status (writer (postCepHandler E r)) = StatusNotFound
       \<and> written (writer (postCepHandler E r)) = ''can not find zipcode'' @ [CHR 0x0A]"
  using assms(3,4) postCepHandler_relay_404 [OF assms(5), of E]
  by (simp add: postCepHandler_valid [OF assms(1,2)])

theorem edge_relays_not_found_witness:
  "json_Decode_Cep example_env_a (in_Body (example_post (cep_body ''99999999'')))
     = (None, \<lparr>Cep = ''99999999''\<rparr>)
   \<and> client_Do example_env_a
         (forwarded_request example_env_a (example_post (cep_body ''99999999'')) ''99999999'')
       = Inr \<lparr>StatusCode = StatusNotFound, Body = Inr (''can not find zipcode'' @ [CHR 0x0A])\<rparr>
   \<and> status (writer (postCepHandler example_env_a (example_post (cep_body ''99999999''))))
       = StatusNotFound
   \<and> written (writer (postCepHandler example_env_a (example_post (cep_body ''99999999''))))
       = ''can not find zipcode'' @ [CHR 0x0A]"
proof -
  have url: "NewRequest_error example_env_a MethodGet
               (getTempEndpoint @ ''?cep='' @ Cep \<lparr>Cep = ''99999999''\<rparr>) = None"
    by (simp add: run_defs example_defs)
  have resp: "client_Do example_env_a
         (forwarded_request example_env_a (example_post (cep_body ''99999999''))
            (Cep \<lparr>Cep = ''99999999''\<rparr>))
       = Inr \<lparr>StatusCode = StatusNotFound, Body = Inr (''can not find zipcode'' @ [CHR 0x0A])\<rparr>"
    by (simp add: run_defs example_defs)
  from edge_relays_not_found [OF example_decode_code(2) _ url resp] example_decode_code(2) resp
  show ?thesis by simp
qed






text \<open>
  C10. Both handlers compare the byte length of the postal code to 8, not its number
  of characters. A code of eight two-byte characters (16 bytes) is rejected with 422 by
  both; a code of four two-byte characters (8 bytes) passes the validation of both: the
  backend goes on to the geocode resolver, and the edge forwards the code.
\<close>

theorem validation_counts_bytes:
  "length eight_chars = 8 \<and> length four_chars < 8 \<and> length (utf8 four_chars) = 8
   \<and> (Values_Get (in_Query rb) ''cep'' = utf8 eight_chars \<longrightarrow>
        status (writer (getWeatherHandler Eb rb)) = StatusUnprocessableEntity
        \<and> written (writer (getWeatherHandler Eb rb)) = ''invalid zipcode'' @ [CHR 0x0A])
   \<and> (Values_Get (in_Query rb) ''cep'' = utf8 four_chars \<longrightarrow>
        status (writer (getWeatherHandler Eb rb)) \<noteq> StatusUnprocessableEntity
        \<and> ''getLocation from viacep'' \<in> set (span_opens (events (getWeatherHandler Eb rb))))
   \<and> (json_Decode_Cep Ea (in_Body ra) = (None, \<lparr>Cep = utf8 eight_chars\<rparr>) \<longrightarrow>
        status (writer (postCepHandler Ea ra)) = StatusUnprocessableEntity
        \<and> written (writer (postCepHandler Ea ra)) = ''invalid zipcode'' @ [CHR 0x0A]
        \<and> requests_sent (events (postCepHandler Ea ra)) = [])
   \<and> (json_Decode_Cep Ea (in_Body ra) = (None, \<lparr>Cep = utf8 four_chars\<rparr>)
        \<and> NewRequest_error Ea MethodGet (getTempEndpoint @ ''?cep='' @ utf8 four_chars) = None \<longrightarrow>
        requests_sent (events (postCepHandler Ea ra)) = [forwarded_request Ea ra (utf8 four_chars)])"
proof (intro conjI impI)
  show "length eight_chars = 8" "length four_chars < 8" "length (utf8 four_chars) = 8"
    by (simp_all add: utf8_lengths)
next
  assume "Values_Get (in_Query rb) ''cep'' = utf8 eight_chars"
  then have "length (Values_Get (in_Query rb) ''cep'') \<noteq> 8"
    by (simp add: utf8_lengths)
  then show "status (writer (getWeatherHandler Eb rb)) = StatusUnprocessableEntity"
    and "written (writer (getWeatherHandler Eb rb)) = ''invalid zipcode'' @ [CHR 0x0A]"
    by (simp_all add: getWeatherHandler_invalid http_Error_fresh newResponseWriter_def)
next
  assume "Values_Get (in_Query rb) ''cep'' = utf8 four_chars"
  then have "length (Values_Get (in_Query rb) ''cep'') = 8"
    by (simp add: utf8_lengths)
  then show "status (writer (getWeatherHandler Eb rb)) \<noteq> StatusUnprocessableEntity"
    and "''getLocation from viacep'' \<in> set (span_opens (events (getWeatherHandler Eb rb)))"
    by (rule getWeatherHandler_valid_status)+
next
  assume "json_Decode_Cep Ea (in_Body ra) = (None, \<lparr>Cep = utf8 eight_chars\<rparr>)"
  then have "fst (json_Decode_Cep Ea (in_Body ra)) \<noteq> None
           \<or> length (Cep (snd (json_Decode_Cep Ea (in_Body ra)))) \<noteq> 8"
    by (simp add: utf8_lengths)
  then show "status (writer (postCepHandler Ea ra)) = StatusUnprocessableEntity"
    and "written (writer (postCepHandler Ea ra)) = ''invalid zipcode'' @ [CHR 0x0A]"
    and "requests_sent (events (postCepHandler Ea ra)) = []"
    by (simp_all add: postCepHandler_invalid http_Error_fresh newResponseWriter_def)
next
  assume a: "json_Decode_Cep Ea (in_Body ra) = (None, \<lparr>Cep = utf8 four_chars\<rparr>)
        \<and> NewRequest_error Ea MethodGet (getTempEndpoint @ ''?cep='' @ utf8 four_chars) = None"
  then have d: "json_Decode_Cep Ea (in_Body ra) = (None, \<lparr>Cep = utf8 four_chars\<rparr>)"
    and l: "length (Cep \<lparr>Cep = utf8 four_chars\<rparr>) = 8"
    by (simp_all add: utf8_lengths)
  from a show "requests_sent (events (postCepHandler Ea ra))
                 = [forwarded_request Ea ra (utf8 four_chars)]"
    by (simp add: postCepHandler_valid [OF d l] split: sum.splits)
qed

theorem validation_counts_bytes_witness:
  "Values_Get (in_Query (example_query (utf8 eight_chars))) ''cep'' = utf8 eight_chars
   \<and> status (writer (getWeatherHandler example_env_b (example_query (utf8 eight_chars))))
        = StatusUnprocessableEntity
   \<and> Values_Get (in_Query (example_query (utf8 four_chars))) ''cep'' = utf8 four_chars
   \<and> status (writer (getWeatherHandler example_env_b (example_query (utf8 four_chars))))
        \<noteq> StatusUnprocessableEntity
   \<and> json_Decode_Cep example_env_a (in_Body (example_post (cep_body (utf8 eight_chars))))
        = (None, \<lparr>Cep = utf8 eight_chars\<rparr>)
   \<and> status (writer (postCepHandler example_env_a (example_post (cep_body (utf8 eight_chars)))))
        = StatusUnprocessableEntity
   \<and> json_Decode_Cep example_env_a (in_Body (example_post (cep_body (utf8 four_chars))))
        = (None, \<lparr>Cep = utf8 four_chars\<rparr>)
   \<and> NewRequest_error example_env_a MethodGet (getTempEndpoint @ ''?cep='' @ utf8 four_chars) = None
   \<and> requests_sent (events (postCepHandler example_env_a (example_post (cep_body (utf8 four_chars)))))
        = [forwarded_request example_env_a (example_post (cep_body (utf8 four_chars)))
             (utf8 four_chars)]"
proof -
  have q: "Values_Get (in_Query (example_query (utf8 eight_chars))) ''cep'' = utf8 eight_chars"
          "Values_Get (in_Query (example_query (utf8 four_chars))) ''cep'' = utf8 four_chars"
    by (simp_all add: example_query_def Values_Get_def)
  have url: "NewRequest_error example_env_a MethodGet
               (getTempEndpoint @ ''?cep='' @ utf8 four_chars) = None"
    by (simp add: run_defs example_defs)
  from validation_counts_bytes
         [of "example_query (utf8 eight_chars)" example_env_b example_env_a
            "example_post (cep_body (utf8 eight_chars))"]
       validation_counts_bytes
         [of "example_query (utf8 four_chars)" example_env_b example_env_a
            "example_post (cep_body (utf8 four_chars))"]
       q url example_decode_code(4,5)
  show ?thesis
    by simp
qed

end
